theory Spec2Isabelle
  imports Complex_Main
begin

section \<open>Vectors and boxes\<close>

text \<open>
  The viewer computes with \<^verbatim>\<open>THREE.Vector3\<close> and \<^verbatim>\<open>THREE.Box3\<close>. Coordinates are
  modelled as real numbers: rounding of the 64-bit floats of JavaScript is outside the model.
  A division whose divisor is zero is the one place where JavaScript leaves the finite
  numbers (it yields Infinity or NaN and carries on); \<open>js_div\<close> reports it as a value.
\<close>

record vec3 =
  vx :: real
  vy :: real
  vz :: real

definition vec :: "real \<Rightarrow> real \<Rightarrow> real \<Rightarrow> vec3" where
  "vec a b c = \<lparr>vx = a, vy = b, vz = c\<rparr>"

definition vadd :: "vec3 \<Rightarrow> vec3 \<Rightarrow> vec3" where
  "vadd a b = vec (vx a + vx b) (vy a + vy b) (vz a + vz b)"

definition vsub :: "vec3 \<Rightarrow> vec3 \<Rightarrow> vec3" where
  "vsub a b = vec (vx a - vx b) (vy a - vy b) (vz a - vz b)"

definition vmul :: "vec3 \<Rightarrow> vec3 \<Rightarrow> vec3" where
  "vmul a b = vec (vx a * vx b) (vy a * vy b) (vz a * vz b)"

definition multiplyScalar :: "vec3 \<Rightarrow> real \<Rightarrow> vec3" where
  "multiplyScalar a s = vec (vx a * s) (vy a * s) (vz a * s)"

definition vmin :: "vec3 \<Rightarrow> vec3 \<Rightarrow> vec3" where
  "vmin a b = vec (min (vx a) (vx b)) (min (vy a) (vy b)) (min (vz a) (vz b))"

definition vmax :: "vec3 \<Rightarrow> vec3 \<Rightarrow> vec3" where
  "vmax a b = vec (max (vx a) (vx b)) (max (vy a) (vy b)) (max (vz a) (vz b))"

definition cross :: "vec3 \<Rightarrow> vec3 \<Rightarrow> vec3" where
  "cross a b = vec (vy a * vz b - vz a * vy b) (vz a * vx b - vx a * vz b)
                   (vx a * vy b - vy a * vx b)"

definition vlength :: "vec3 \<Rightarrow> real" where
  "vlength a = sqrt (vx a * vx a + vy a * vy a + vz a * vz a)"

text \<open>\<^verbatim>\<open>Vector3.normalize\<close> divides by \<^verbatim>\<open>this.length() || 1\<close>: the zero vector stays as it is.\<close>

definition vnormalize :: "vec3 \<Rightarrow> vec3" where
  "vnormalize a = (let l = vlength a in multiplyScalar a (1 / (if l = 0 then 1 else l)))"

datatype nonfinite = DivisionByZero

definition js_div :: "real \<Rightarrow> real \<Rightarrow> nonfinite + real" where
  "js_div a b = (if b = 0 then Inl DivisionByZero else Inr (a / b))"

text \<open>
  A \<^verbatim>\<open>Box3\<close> starts empty (\<^verbatim>\<open>min = +Infinity\<close>, \<^verbatim>\<open>max = -Infinity\<close>) and grows by
  points. The reals have no infinity, so the empty box is \<open>None\<close>. \<^verbatim>\<open>getCenter\<close> and
  \<^verbatim>\<open>getSize\<close> answer the zero vector for the empty box.
\<close>

record box3 =
  bmin :: vec3
  bmax :: vec3

definition expandByPoint :: "box3 option \<Rightarrow> vec3 \<Rightarrow> box3 option" where
  "expandByPoint b p =
     (case b of
        None \<Rightarrow> Some \<lparr>bmin = p, bmax = p\<rparr>
      | Some bx \<Rightarrow> Some \<lparr>bmin = vmin (bmin bx) p, bmax = vmax (bmax bx) p\<rparr>)"

definition setFromPoints :: "vec3 list \<Rightarrow> box3 option" where
  "setFromPoints ps = foldl expandByPoint None ps"

definition getCenter :: "box3 option \<Rightarrow> vec3" where
  "getCenter b =
     (case b of
        None \<Rightarrow> vec 0 0 0
      | Some bx \<Rightarrow> multiplyScalar (vadd (bmin bx) (bmax bx)) (1 / 2))"

definition getSize :: "box3 option \<Rightarrow> vec3" where
  "getSize b = (case b of None \<Rightarrow> vec 0 0 0 | Some bx \<Rightarrow> vsub (bmax bx) (bmin bx))"

text \<open>
  The largest extent of a box: \<^verbatim>\<open>Math.max(size.x, size.y, size.z)\<close> of its size, which is the
  \<^verbatim>\<open>maxDim\<close> of every caller below.
\<close>

definition box_maxDim :: "box3 option \<Rightarrow> real" where
  "box_maxDim b = (let size = getSize b in max (max (vx size) (vy size)) (vz size))"

section \<open>Materials\<close>

datatype ViewMode = Normal | Wireframe | XRay

datatype material_class = MeshStandardMaterial | MeshPhongMaterial

datatype side = FrontSide | BackSide | DoubleSide

text \<open>
  The fields a \<^verbatim>\<open>THREE.Material\<close> is built with. What the constructor call leaves out
  keeps the library's default: \<^verbatim>\<open>opacity 1\<close>, \<^verbatim>\<open>transparent false\<close>,
  \<^verbatim>\<open>depthWrite true\<close>, \<^verbatim>\<open>side FrontSide\<close>, \<^verbatim>\<open>wireframe false\<close>. Metalness and
  roughness exist on the standard material only.
\<close>

record material =
  material_class :: material_class
  color :: string
  metalness :: "real option"
  roughness :: "real option"
  wireframe :: bool
  opacity :: real
  transparent :: bool
  depthWrite :: bool
  side :: side

definition new_MeshStandardMaterial :: "string \<Rightarrow> material" where
  "new_MeshStandardMaterial c =
     \<lparr>material_class = MeshStandardMaterial, color = c, metalness = Some 0,
      roughness = Some 1, wireframe = False, opacity = 1, transparent = False,
      depthWrite = True, side = FrontSide\<rparr>"

definition new_MeshPhongMaterial :: "string \<Rightarrow> material" where
  "new_MeshPhongMaterial c =
     \<lparr>material_class = MeshPhongMaterial, color = c, metalness = None,
      roughness = None, wireframe = False, opacity = 1, transparent = False,
      depthWrite = True, side = FrontSide\<rparr>"

text \<open>
  \<^verbatim>\<open>createMaterial(mode)\<close> of the \<^verbatim>\<open>Model\<close> component; \<^verbatim>\<open>objectColor\<close> is the
  component's prop, read from the closure.
\<close>

fun createMaterial :: "string \<Rightarrow> ViewMode \<Rightarrow> material" where
  "createMaterial objectColor Wireframe =
     (new_MeshStandardMaterial objectColor)
       \<lparr>metalness := Some (3 / 10), roughness := Some (5 / 10), wireframe := True\<rparr>"
| "createMaterial objectColor XRay =
     (new_MeshPhongMaterial objectColor)
       \<lparr>opacity := 5 / 10, transparent := True, depthWrite := False, side := DoubleSide\<rparr>"
| "createMaterial objectColor Normal =
     (new_MeshStandardMaterial objectColor)
       \<lparr>metalness := Some (3 / 10), roughness := Some (5 / 10)\<rparr>"

section \<open>Geometry and the loaders' callbacks\<close>

text \<open>
  A \<^verbatim>\<open>BufferGeometry\<close> as the two loaders build it: a triangle soup without an index,
  three consecutive positions per triangle, and a normal attribute that may be absent.
\<close>

record geometry =
  positions :: "vec3 list"
  normals :: "vec3 list option"

text \<open>
  \<^verbatim>\<open>BufferGeometry.computeVertexNormals\<close> on a geometry without index: every triangle
  \<open>(pA, pB, pC)\<close> gives \<open>(pC - pB) \<times> (pA - pB)\<close> to its three vertices, and every normal is
  normalised at the end. The normal attribute has one entry per position. The loaders
  build whole triangles only; for one or two positions left over at the end JavaScript
  computes NaN, which the reals do not have: the model puts the zero vector there and no
  statement below speaks about these entries.
\<close>

fun faceNormals :: "vec3 list \<Rightarrow> vec3 list" where
  "faceNormals (pA # pB # pC # ps) =
     (let cb = cross (vsub pC pB) (vsub pA pB) in cb # cb # cb # faceNormals ps)"
| "faceNormals ps = map (\<lambda>_. vec 0 0 0) ps"

definition computeVertexNormals :: "geometry \<Rightarrow> geometry" where
  "computeVertexNormals g = g\<lparr>normals := Some (map vnormalize (faceNormals (positions g)))\<rparr>"

definition computeBoundingBox :: "geometry \<Rightarrow> box3 option" where
  "computeBoundingBox g = setFromPoints (positions g)"

text \<open>
  \<^verbatim>\<open>Object3D\<close>: position and scale (the rotation is never touched and stays the identity).
  A fresh object has position \<open>(0,0,0)\<close> and scale \<open>(1,1,1)\<close>. A vertex \<open>v\<close> of the object is
  drawn at \<open>position + scale * v\<close>.
\<close>

record object3d =
  position :: vec3
  scale :: vec3

record mesh = object3d +
  geometry :: geometry
  material :: material

definition new_Mesh :: "geometry \<Rightarrow> material \<Rightarrow> mesh" where
  "new_Mesh g m = \<lparr>position = vec 0 0 0, scale = vec 1 1 1, geometry = g, material = m\<rparr>"

definition localToWorld :: "'a object3d_scheme \<Rightarrow> vec3 \<Rightarrow> vec3" where
  "localToWorld ob v = vadd (position ob) (vmul (scale ob) v)"

text \<open>
  The success callback of \<^verbatim>\<open>STLLoader.load\<close> in \<^verbatim>\<open>Model\<close>, for a run whose
  \<^verbatim>\<open>isActive\<close> flag is still set: the mesh that is put under \<^verbatim>\<open>modelRef\<close>.
\<close>

definition stl_onLoad :: "ViewMode \<Rightarrow> string \<Rightarrow> geometry \<Rightarrow> nonfinite + mesh" where
  "stl_onLoad viewMode objectColor geometry0 =
     (let g = (if normals geometry0 = None then computeVertexNormals geometry0
               else geometry0);
          mat = createMaterial objectColor viewMode;
          mesh0 = new_Mesh g mat;
          box = computeBoundingBox g;
          center = getCenter box;
          size = getSize box;
          mesh1 = mesh0\<lparr>position := vec (- vx center) (- vy center) (- vz center)\<rparr>;
          maxDim = max (max (vx size) (vy size)) (vz size)
      in if maxDim > 0
         then (case js_div 2 maxDim of
                 Inl e \<Rightarrow> Inl e
               | Inr s \<Rightarrow> Inr (mesh1\<lparr>scale := vec s s s\<rparr>))
         else Inr mesh1)"

text \<open>
  The object an \<^verbatim>\<open>OBJLoader\<close> hands over: a group whose children are meshes, line
  segments or point clouds, each with its geometry.
\<close>

datatype child = Mesh mesh | LineSegments geometry | Points geometry

record group = object3d +
  children :: "child list"

text \<open>The group as the loader returns it: a fresh \<^verbatim>\<open>Object3D\<close> holding the parsed children.\<close>

definition new_Group :: "child list \<Rightarrow> group" where
  "new_Group cs = \<lparr>position = vec 0 0 0, scale = vec 1 1 1, children = cs\<rparr>"

fun child_positions :: "child \<Rightarrow> vec3 list" where
  "child_positions (Mesh m) = positions (geometry m)"
| "child_positions (LineSegments g) = positions g"
| "child_positions (Points g) = positions g"

text \<open>\<^verbatim>\<open>new THREE.Box3().setFromObject(obj)\<close> on the untransformed group.\<close>

definition setFromObject :: "group \<Rightarrow> box3 option" where
  "setFromObject obj = setFromPoints (concat (map child_positions (children obj)))"

fun apply_material :: "material \<Rightarrow> child \<Rightarrow> child" where
  "apply_material mat (Mesh m) = Mesh (m\<lparr>material := mat\<rparr>)"
| "apply_material mat c = c"

text \<open>The success callback of \<^verbatim>\<open>OBJLoader.load\<close> in \<^verbatim>\<open>Model\<close>.\<close>

definition obj_onLoad :: "ViewMode \<Rightarrow> string \<Rightarrow> group \<Rightarrow> nonfinite + group" where
  "obj_onLoad viewMode objectColor obj =
     (let box = setFromObject obj;
          center = getCenter box;
          size = getSize box;
          obj1 = obj\<lparr>position := vec (- vx center) (- vy center) (- vz center)\<rparr>;
          maxDim = max (max (vx size) (vy size)) (vz size);
          paint = (\<lambda>ob. ob\<lparr>children :=
                     map (apply_material (createMaterial objectColor viewMode))
                       (children ob)\<rparr>)
      in if maxDim > 0
         then (case js_div 2 maxDim of
                 Inl e \<Rightarrow> Inl e
               | Inr s \<Rightarrow> Inr (paint (obj1\<lparr>scale := vec s s s\<rparr>)))
         else Inr (paint obj1))"

section \<open>Camera framing (the effect of \<^verbatim>\<open>SceneSetup\<close>)\<close>

text \<open>
  \<^verbatim>\<open>camera instanceof THREE.PerspectiveCamera\<close> decides where the field of view comes from;
  \<^verbatim>\<open>camera.fov\<close> is in degrees. \<open>controls_target\<close> is \<^verbatim>\<open>controlsRef.current.target\<close>,
  \<open>None\<close> while the ref is not set.
\<close>

datatype camera_class = PerspectiveCamera real | OtherCamera

record view =
  camera :: camera_class
  camera_position :: vec3
  controls_target :: "vec3 option"

text \<open>
  The effect body. \<open>meshes\<close> are the \<^verbatim>\<open>THREE.Mesh\<close> objects found by \<^verbatim>\<open>scene.traverse\<close>,
  each given by its vertices in world coordinates, which is what \<^verbatim>\<open>box.expandByObject\<close>
  reads.
\<close>

definition sceneSetup_effect :: "vec3 list list \<Rightarrow> view \<Rightarrow> nonfinite + view" where
  "sceneSetup_effect meshes v =
     (case controls_target v of
        None \<Rightarrow> Inr v
      | Some _ \<Rightarrow>
          if meshes = [] then Inr v
          else
            (let box = setFromPoints (concat meshes);
                 center = getCenter box;
                 size = getSize box;
                 v1 = v\<lparr>controls_target := Some center\<rparr>;
                 maxDim = max (max (vx size) (vy size)) (vz size)
             in if maxDim > 0
                then
                  (let fov = (case camera v of
                                PerspectiveCamera deg \<Rightarrow> deg * (pi / 180)
                              | OtherCamera \<Rightarrow> 45 * (pi / 180))
                   in case js_div (maxDim / 2) (tan (fov / 2)) of
                        Inl e \<Rightarrow> Inl e
                      | Inr q \<Rightarrow>
                          (let distance = q * (5 / 2);
                               direction = vnormalize (vec 1 1 1)
                           in Inr (v1\<lparr>camera_position :=
                                        vadd center (multiplyScalar direction distance)\<rparr>)))
                else Inr v1))"

section \<open>The viewer component (\<^verbatim>\<open>ModelViewer\<close>)\<close>

text \<open>
  An object URL is numbered by the order of the \<^verbatim>\<open>URL.createObjectURL\<close> calls; the blob
  behind URL \<open>n\<close> is entry \<open>n\<close> of \<open>objectURLs\<close>. A response of the model store is a
  payload (\<^verbatim>\<open>response.ok\<close> and the body read), a status that is not ok (given by its
  decimal rendering, as the error message shows it), or a rejected promise (given by the
  rendering of the thrown value).
\<close>

type_synonym url = nat

type_synonym blob = string

record model_info =
  name :: string
  file_format :: string

datatype 'a response = Ok 'a | NotOk string | Rejected string

datatype request = GetDetails string | GetDownload string

text \<open>
  A call of \<^verbatim>\<open>fetchModel\<close> is suspended twice: until the details have arrived and until
  the file has arrived. \<open>tasks\<close> lists the calls in the order they were started; a finished
  call is \<open>None\<close>.
\<close>

datatype stage = AwaitDetails | AwaitFile

text \<open>
  The state of the component (\<^verbatim>\<open>useState\<close>), the prop \<open>modelId\<close>, the cleanup function
  that the effect on \<^verbatim>\<open>[modelId]\<close> returned last, and what the component did to the
  browser: the requests sent, the object URLs created and the calls of
  \<^verbatim>\<open>URL.revokeObjectURL\<close>. The cleanup function is given by the value of \<^verbatim>\<open>modelUrl\<close>
  its closure holds: the effect and its cleanup are created by one render and read the
  \<^verbatim>\<open>modelUrl\<close> of that render. The theme and the background colour are left out;
  nothing below reads them.
\<close>

record viewer =
  mounted :: bool
  modelId :: "string option"
  loading :: bool
  error :: "string option"
  modelUrl :: "url option"
  modelInfo :: "model_info option"
  viewMode :: ViewMode
  autoRotate :: bool
  objectColor :: string
  cleanup :: "url option option"
  tasks :: "(string \<times> stage) option list"
  network :: "request list"
  objectURLs :: "blob list"
  revoked :: "url list"

text \<open>\<^verbatim>\<open>!modelId\<close> holds for \<^verbatim>\<open>null\<close> and for the empty string.\<close>

definition truthy :: "string option \<Rightarrow> bool" where
  "truthy i \<longleftrightarrow> i \<noteq> None \<and> i \<noteq> Some []"

text \<open>A state setter changes the state of a mounted component and nothing afterwards.\<close>

definition set_state :: "(viewer \<Rightarrow> viewer) \<Rightarrow> viewer \<Rightarrow> viewer" where
  "set_state f s = (if mounted s then f s else s)"

text \<open>
  The cleanup of the effect on \<^verbatim>\<open>[modelId]\<close>:
  \<^verbatim>\<open>if (modelUrl) URL.revokeObjectURL(modelUrl)\<close>, with the \<^verbatim>\<open>modelUrl\<close> of its closure.
\<close>

definition run_cleanup :: "viewer \<Rightarrow> viewer" where
  "run_cleanup s =
     (case cleanup s of
        Some (Some u) \<Rightarrow> s\<lparr>cleanup := None, revoked := revoked s @ [u]\<rparr>
      | _ \<Rightarrow> s\<lparr>cleanup := None\<rparr>)"

text \<open>
  The effect on \<^verbatim>\<open>[modelId]\<close>. Without a model id it clears the URL and the info and returns
  no cleanup. Otherwise it calls \<^verbatim>\<open>fetchModel\<close>, which runs up to its first
  \<^verbatim>\<open>await\<close>, and returns the cleanup.
\<close>

definition modelId_effect :: "viewer \<Rightarrow> viewer" where
  "modelId_effect s =
     (case modelId s of
        None \<Rightarrow> s\<lparr>modelUrl := None, modelInfo := None\<rparr>
      | Some i \<Rightarrow>
          if i = [] then s\<lparr>modelUrl := None, modelInfo := None\<rparr>
          else s\<lparr>loading := True, error := None,
                 tasks := tasks s @ [Some (i, AwaitDetails)],
                 network := network s @ [GetDetails i],
                 cleanup := Some (modelUrl s)\<rparr>)"

definition initial :: "string option \<Rightarrow> viewer" where
  "initial i =
     \<lparr>mounted = True, modelId = i, loading = False, error = None, modelUrl = None,
      modelInfo = None, viewMode = Normal, autoRotate = False, objectColor = ''#00b8d4'',
      cleanup = None, tasks = [], network = [], objectURLs = [], revoked = []\<rparr>"

definition mount :: "string option \<Rightarrow> viewer" where
  "mount i = modelId_effect (initial i)"

text \<open>
  The parent renders the viewer with a new \<^verbatim>\<open>modelId\<close>. When the value differs from the
  last one, the cleanup of the last effect runs and then the effect of this render.
\<close>

definition setModelId :: "string option \<Rightarrow> viewer \<Rightarrow> viewer" where
  "setModelId i s =
     (if \<not> mounted s \<or> i = modelId s then s
      else modelId_effect ((run_cleanup s)\<lparr>modelId := i\<rparr>))"

definition unmount :: "viewer \<Rightarrow> viewer" where
  "unmount s = (if mounted s then (run_cleanup s)\<lparr>mounted := False\<rparr> else s)"

definition task_at :: "viewer \<Rightarrow> nat \<Rightarrow> (string \<times> stage) option" where
  "task_at s k = (if k < length (tasks s) then tasks s ! k else None)"

text \<open>The \<^verbatim>\<open>catch\<close> and \<^verbatim>\<open>finally\<close> blocks of \<^verbatim>\<open>fetchModel\<close>.\<close>

definition fetch_failed :: "nat \<Rightarrow> string \<Rightarrow> viewer \<Rightarrow> viewer" where
  "fetch_failed k msg s =
     (set_state (\<lambda>s. s\<lparr>loading := False, error := Some (''Error: '' @ msg)\<rparr>) s)
       \<lparr>tasks := (tasks s)[k := None]\<rparr>"

text \<open>
  Call \<open>k\<close> of \<^verbatim>\<open>fetchModel\<close> resumes with the answer to its details request: it stores
  the info and sends the download request, whatever the viewer shows by now.
\<close>

definition fetchModel_details :: "nat \<Rightarrow> model_info response \<Rightarrow> viewer \<Rightarrow> viewer" where
  "fetchModel_details k r s =
     (case task_at s k of
        Some (i, AwaitDetails) \<Rightarrow>
          (case r of
             Ok modelData \<Rightarrow>
               (set_state (\<lambda>s. s\<lparr>modelInfo := Some modelData\<rparr>) s)
                 \<lparr>tasks := (tasks s)[k := Some (i, AwaitFile)],
                  network := network s @ [GetDownload i]\<rparr>
           | NotOk status \<Rightarrow>
               fetch_failed k (''Error: Failed to fetch model details: '' @ status) s
           | Rejected err \<Rightarrow> fetch_failed k err s)
      | _ \<Rightarrow> s)"

text \<open>
  Call \<open>k\<close> resumes with the answer to its download request: it creates an object URL for
  the blob and stores it.
\<close>

definition fetchModel_file :: "nat \<Rightarrow> blob response \<Rightarrow> viewer \<Rightarrow> viewer" where
  "fetchModel_file k r s =
     (case task_at s k of
        Some (i, AwaitFile) \<Rightarrow>
          (case r of
             Ok b \<Rightarrow>
               (set_state (\<lambda>s. s\<lparr>modelUrl := Some (length (objectURLs s)), loading := False\<rparr>) s)
                 \<lparr>tasks := (tasks s)[k := None],
                  objectURLs := objectURLs s @ [b]\<rparr>
           | NotOk status \<Rightarrow>
               fetch_failed k (''Error: Failed to download model: '' @ status) s
           | Rejected err \<Rightarrow> fetch_failed k err s)
      | _ \<Rightarrow> s)"

definition setViewMode :: "ViewMode \<Rightarrow> viewer \<Rightarrow> viewer" where
  "setViewMode m s = set_state (\<lambda>s. s\<lparr>viewMode := m\<rparr>) s"

definition setObjectColor :: "string \<Rightarrow> viewer \<Rightarrow> viewer" where
  "setObjectColor c s = set_state (\<lambda>s. s\<lparr>objectColor := c\<rparr>) s"

definition setAutoRotate :: "bool \<Rightarrow> viewer \<Rightarrow> viewer" where
  "setAutoRotate b s = set_state (\<lambda>s. s\<lparr>autoRotate := b\<rparr>) s"

datatype event =
    SetModelId "string option"
  | DetailsArrive nat "model_info response"
  | FileArrive nat "blob response"
  | SetViewMode ViewMode
  | SetObjectColor string
  | SetAutoRotate bool
  | Unmount

fun step :: "viewer \<Rightarrow> event \<Rightarrow> viewer" where
  "step s (SetModelId i) = setModelId i s"
| "step s (DetailsArrive k r) = fetchModel_details k r s"
| "step s (FileArrive k r) = fetchModel_file k r s"
| "step s (SetViewMode m) = setViewMode m s"
| "step s (SetObjectColor c) = setObjectColor c s"
| "step s (SetAutoRotate b) = setAutoRotate b s"
| "step s Unmount = unmount s"

definition run :: "string option \<Rightarrow> event list \<Rightarrow> viewer" where
  "run i es = foldl step (mount i) es"

text \<open>What the viewer renders: the branches of the component's \<^verbatim>\<open>return\<close>, in their order.\<close>

datatype load_state =
    Idle
  | Loading
  | Failed string
  | Loaded url model_info
  | NoData

definition render :: "viewer \<Rightarrow> load_state" where
  "render s =
     (if \<not> truthy (modelId s) then Idle
      else if loading s then Loading
      else case error s of
             Some msg \<Rightarrow> Failed msg
           | None \<Rightarrow>
               (case (modelUrl s, modelInfo s) of
                  (Some u, Some info) \<Rightarrow> Loaded u info
                | _ \<Rightarrow> NoData))"

text \<open>The object URLs created and not revoked.\<close>

definition live_urls :: "viewer \<Rightarrow> url list" where
  "live_urls s = filter (\<lambda>u. u \<notin> set (revoked s)) [0..<length (objectURLs s)]"

section \<open>The model component (\<^verbatim>\<open>Model\<close>)\<close>

text \<open>
  The props the viewer passes to \<^verbatim>\<open>Model\<close>, when it renders one: the canvas is rendered
  in the last branch of the viewer and only with a URL and an info.
\<close>

record model_props =
  url :: url
  fileFormat :: string
  mode :: ViewMode
  colour :: string

definition rendered_model :: "viewer \<Rightarrow> model_props option" where
  "rendered_model s =
     (if \<not> mounted s then None
      else case render s of
             Loaded u info \<Rightarrow>
               Some \<lparr>url = u, fileFormat = file_format info, mode = viewMode s,
                     colour = objectColor s\<rparr>
           | _ \<Rightarrow> None)"

text \<open>
  \<^verbatim>\<open>loadModel\<close>: the format decides between the two loaders and the error. The comparison
  is \<^verbatim>\<open>===\<close> with the literals \<^verbatim>\<open>'stl'\<close> and \<^verbatim>\<open>'obj'\<close>.
\<close>

datatype load_action = STLLoader_load url | OBJLoader_load url | SetError string

definition loadModel :: "url \<Rightarrow> string \<Rightarrow> load_action" where
  "loadModel u fmt =
     (if fmt = ''stl'' then STLLoader_load u
      else if fmt = ''obj'' then OBJLoader_load u
      else SetError (''Unsupported file format: '' @ fmt))"

text \<open>
  The two effects of \<^verbatim>\<open>Model\<close> and when they run. The load effect depends on
  \<^verbatim>\<open>[url, fileFormat, viewMode]\<close>, the colour effect on \<^verbatim>\<open>[objectColor]\<close>. On the first
  render of a \<^verbatim>\<open>Model\<close> both run; on a later render an effect runs when one of its
  dependencies differs from the last render.
\<close>

datatype model_effect = LoadEffect load_action ViewMode | ColourEffect string

definition model_effects :: "model_props option \<Rightarrow> model_props option \<Rightarrow> model_effect list" where
  "model_effects prev cur =
     (case cur of
        None \<Rightarrow> []
      | Some p \<Rightarrow>
          (case prev of
             None \<Rightarrow> [LoadEffect (loadModel (url p) (fileFormat p)) (mode p), ColourEffect (colour p)]
           | Some q \<Rightarrow>
               (if (url q, fileFormat q, mode q) \<noteq> (url p, fileFormat p, mode p)
                then [LoadEffect (loadModel (url p) (fileFormat p)) (mode p)] else []) @
               (if colour q \<noteq> colour p then [ColourEffect (colour p)] else [])))"

text \<open>The effects of \<^verbatim>\<open>Model\<close> that one event of the viewer sets off.\<close>

definition effects_of :: "event \<Rightarrow> viewer \<Rightarrow> model_effect list" where
  "effects_of e s = model_effects (rendered_model s) (rendered_model (step s e))"

text \<open>
  The state of one \<^verbatim>\<open>Model\<close>: the object it shows (\<^verbatim>\<open>setModel\<close>), its error, and the
  runs of the load effect in their order, each with the props of its render and its
  \<^verbatim>\<open>isActive\<close> flag. A load is answered later by the loader, with the parsed file or
  with an error.
\<close>

datatype loaded = LoadedMesh mesh | LoadedGroup group

datatype loader_result = ParsedSTL geometry | ParsedOBJ "child list"

record model_component =
  model :: "loaded option"
  load_error :: "string option"
  runs :: "(model_props \<times> bool) list"

definition new_Model :: model_component where
  "new_Model = \<lparr>model = None, load_error = None, runs = []\<rparr>"

text \<open>The cleanup of the load effect: \<^verbatim>\<open>isActive = false\<close> in the closure of the last run.\<close>

definition deactivate_last :: "(model_props \<times> bool) list \<Rightarrow> (model_props \<times> bool) list" where
  "deactivate_last rs =
     (case rev rs of [] \<Rightarrow> [] | (q, _) # earlier \<Rightarrow> rev ((q, False) # earlier))"

text \<open>
  The load effect runs for the props \<open>p\<close>: the cleanup of the run before, then
  \<^verbatim>\<open>loadModel\<close>, which starts a loader or sets the error for an unknown format.
\<close>

definition load_effect :: "model_props \<Rightarrow> model_component \<Rightarrow> model_component" where
  "load_effect p c =
     (let c1 = c\<lparr>runs := deactivate_last (runs c) @ [(p, True)]\<rparr>
      in case loadModel (url p) (fileFormat p) of
           SetError msg \<Rightarrow> c1\<lparr>load_error := Some msg\<rparr>
         | _ \<Rightarrow> c1)"

text \<open>
  The success callback of run \<open>k\<close>. Its first line is \<^verbatim>\<open>if (!isActive) return\<close>. The view
  mode and the colour are the ones of the render that started the run.
\<close>

definition onLoad :: "nat \<Rightarrow> loader_result \<Rightarrow> model_component \<Rightarrow> model_component" where
  "onLoad k r c =
     (if k < length (runs c) then
        (case runs c ! k of
           (p, active) \<Rightarrow>
             if \<not> active then c
             else
               (case (loadModel (url p) (fileFormat p), r) of
                  (STLLoader_load _, ParsedSTL g) \<Rightarrow>
                    (case stl_onLoad (mode p) (colour p) g of
                       Inr m \<Rightarrow> c\<lparr>model := Some (LoadedMesh m)\<rparr>
                     | Inl _ \<Rightarrow> c)
                | (OBJLoader_load _, ParsedOBJ cs) \<Rightarrow>
                    (case obj_onLoad (mode p) (colour p) (new_Group cs) of
                       Inr ob \<Rightarrow> c\<lparr>model := Some (LoadedGroup ob)\<rparr>
                     | Inl _ \<Rightarrow> c)
                | _ \<Rightarrow> c))
      else c)"

text \<open>The error callback of run \<open>k\<close>; it does not read \<^verbatim>\<open>isActive\<close>.\<close>

definition onError :: "nat \<Rightarrow> model_component \<Rightarrow> model_component" where
  "onError k c =
     (if k < length (runs c) then
        (case runs c ! k of
           (p, _) \<Rightarrow>
             (case loadModel (url p) (fileFormat p) of
                STLLoader_load _ \<Rightarrow> c\<lparr>load_error := Some ''Failed to load STL model''\<rparr>
              | OBJLoader_load _ \<Rightarrow> c\<lparr>load_error := Some ''Failed to load OBJ model''\<rparr>
              | SetError _ \<Rightarrow> c))
      else c)"

section \<open>Deleting a model (\<^verbatim>\<open>App\<close> and \<^verbatim>\<open>ModelList\<close>)\<close>

text \<open>
  An entry of the list of models; \<open>model_id\<close> is \<^verbatim>\<open>model.id.toString()\<close>. The answer to
  the \<^verbatim>\<open>DELETE\<close> request is a \<open>response\<close> whose payload is not read.
\<close>

record model_entry =
  model_id :: string
  entry_info :: model_info

record app =
  models :: "model_entry list"
  activeModelId :: "string option"

text \<open>
  \<^verbatim>\<open>handleModelDelete\<close> of \<^verbatim>\<open>App\<close>, resumed with the answer to its request. The
  handler is a closure of the render in which the button was clicked: after the
  \<^verbatim>\<open>await\<close> its \<^verbatim>\<open>models\<close> and \<^verbatim>\<open>activeModelId\<close> are still the values of that render,
  here \<open>captured\<close>. \<^verbatim>\<open>setModels\<close> and \<^verbatim>\<open>setActiveModelId\<close> replace the fields of the state
  the component has when the handler resumes, here \<open>live\<close>.
\<close>

definition handleModelDelete :: "'a response \<Rightarrow> string \<Rightarrow> app \<Rightarrow> app \<Rightarrow> app" where
  "handleModelDelete r mid captured live =
     (case r of
        Ok _ \<Rightarrow>
          (let live1 = live\<lparr>models := filter (\<lambda>m. model_id m \<noteq> mid) (models captured)\<rparr>
           in if activeModelId captured = Some mid
              then
                (let remainingModels = filter (\<lambda>m. model_id m \<noteq> mid) (models captured)
                 in live1\<lparr>activeModelId :=
                            (if length remainingModels > 0
                             then Some (model_id (remainingModels ! 0)) else None)\<rparr>)
              else live1)
      | _ \<Rightarrow> live)"

text \<open>\<^verbatim>\<open>handleModelSelect\<close> of \<^verbatim>\<open>App\<close>.\<close>

definition handleModelSelect :: "string \<Rightarrow> app \<Rightarrow> app" where
  "handleModelSelect mid live = live\<lparr>activeModelId := Some mid\<rparr>"

text \<open>
  The component over time: its state, and the calls of \<^verbatim>\<open>handleModelDelete\<close> that wait
  for their answer, in the order of the clicks, each with the model id it was called with
  and the state of the render it was created in. A finished call is \<open>None\<close>.
\<close>

record app_run =
  current :: app
  deleting :: "(string \<times> app) option list"

datatype app_event =
    ClickDelete string
  | DeleteAnswer nat "unit response"
  | ClickSelect string

definition deleting_at :: "app_run \<Rightarrow> nat \<Rightarrow> (string \<times> app) option" where
  "deleting_at a k = (if k < length (deleting a) then deleting a ! k else None)"

fun app_step :: "app_run \<Rightarrow> app_event \<Rightarrow> app_run" where
  "app_step a (ClickDelete mid) = a\<lparr>deleting := deleting a @ [Some (mid, current a)]\<rparr>"
| "app_step a (DeleteAnswer k r) =
     (case deleting_at a k of
        Some (mid, captured) \<Rightarrow>
          a\<lparr>current := handleModelDelete r mid captured (current a),
            deleting := (deleting a)[k := None]\<rparr>
      | None \<Rightarrow> a)"
| "app_step a (ClickSelect mid) = a\<lparr>current := handleModelSelect mid (current a)\<rparr>"

definition app_events :: "app \<Rightarrow> app_event list \<Rightarrow> app_run" where
  "app_events s es = foldl app_step \<lparr>current = s, deleting = []\<rparr> es"

text \<open>
  \<^verbatim>\<open>handleDelete\<close> of \<^verbatim>\<open>ModelList\<close>, resumed with the answer to its request. The
  component owns no selection: it reads the prop \<^verbatim>\<open>activeModel\<close> of the render the
  handler was created in and reports through the prop \<^verbatim>\<open>onModelSelect\<close>. The result says
  whether \<^verbatim>\<open>fetchModels\<close> was called and lists the arguments of the calls of
  \<^verbatim>\<open>onModelSelect\<close>. \<^verbatim>\<open>App\<close> does not render this component.
\<close>

definition handleDelete :: "'a response \<Rightarrow> string \<Rightarrow> string option \<Rightarrow> bool \<times> string option list" where
  "handleDelete r mid activeModel =
     (case r of
        Ok _ \<Rightarrow> (True, if activeModel = Some mid then [None] else [])
      | _ \<Rightarrow> (False, []))"

section \<open>Notions used in the statements\<close>

text \<open>Boxes under a translation and a non-negative uniform scale.\<close>

definition affine :: "vec3 \<Rightarrow> real \<Rightarrow> vec3 \<Rightarrow> vec3" where
  "affine t s v = vadd t (vmul (vec s s s) v)"

definition box_image :: "vec3 \<Rightarrow> real \<Rightarrow> box3 \<Rightarrow> box3" where
  "box_image t s b = \<lparr>bmin = affine t s (bmin b), bmax = affine t s (bmax b)\<rparr>"

definition ordered :: "box3 \<Rightarrow> bool" where
  "ordered b \<longleftrightarrow>
     vx (bmin b) \<le> vx (bmax b) \<and> vy (bmin b) \<le> vy (bmax b) \<and> vz (bmin b) \<le> vz (bmax b)"

text \<open>
  What the claim on centring and scaling asks of a transformed object whose vertices are
  \<open>ps\<close>: the position is minus the centre of the box of \<open>ps\<close>; with a positive largest
  extent \<open>d\<close> the scale is \<open>2 / d\<close> on every axis and the box of the drawn vertices has
  largest extent 2; otherwise \<open>d\<close> is zero and the scale is 1.
\<close>

definition fitted :: "vec3 list \<Rightarrow> 'a object3d_scheme \<Rightarrow> bool" where
  "fitted ps ob =
     (case setFromPoints ps of
        None \<Rightarrow> False
      | Some b \<Rightarrow>
          position ob = vec (- ((vx (bmin b) + vx (bmax b)) / 2))
                            (- ((vy (bmin b) + vy (bmax b)) / 2))
                            (- ((vz (bmin b) + vz (bmax b)) / 2)) \<and>
          (let d = box_maxDim (Some b) in
             if 0 < d
             then scale ob = vec (2 / d) (2 / d) (2 / d) \<and>
                  box_maxDim (setFromPoints (map (localToWorld ob) ps)) = 2
             else d = 0 \<and> scale ob = vec 1 1 1))"

text \<open>The part of the viewer's state that the fetch pipeline reads or writes.\<close>

definition fetch_state ::
  "viewer \<Rightarrow> bool \<times> string option \<times> bool \<times> string option \<times> url option \<times> model_info option \<times>
     url option option \<times> (string \<times> stage) option list \<times> request list \<times> blob list \<times> url list" where
  "fetch_state s =
     (mounted s, modelId s, loading s, error s, modelUrl s, modelInfo s, cleanup s, tasks s,
      network s, objectURLs s, revoked s)"

text \<open>The geometry of a child of a group, and the face normal of triangle \<open>i\<close> of a soup.\<close>

fun child_geometry :: "child \<Rightarrow> geometry" where
  "child_geometry (Mesh m) = geometry m"
| "child_geometry (LineSegments g) = g"
| "child_geometry (Points g) = g"

definition triangle_normal :: "vec3 list \<Rightarrow> nat \<Rightarrow> vec3" where
  "triangle_normal ps i =
     cross (vsub (ps ! (3 * i + 2)) (ps ! (3 * i + 1))) (vsub (ps ! (3 * i)) (ps ! (3 * i + 1)))"

section \<open>Properties of the geometry pipeline\<close>

lemma setFromPoints_Cons:
  "setFromPoints (p # ps) = foldl expandByPoint (Some \<lparr>bmin = p, bmax = p\<rparr>) ps"
  by (simp add: setFromPoints_def expandByPoint_def)

lemma affine_min_real:
  fixes s :: real
  shows "0 \<le> s \<Longrightarrow> min (t + s * a) (t + s * b) = t + s * min a b"
  by (simp add: min_mult_distrib_left flip: min_add_distrib_right)

lemma affine_max_real:
  fixes s :: real
  shows "0 \<le> s \<Longrightarrow> max (t + s * a) (t + s * b) = t + s * max a b"
  by (simp add: max_mult_distrib_left flip: max_add_distrib_right)

lemma affine_vmin: "0 \<le> s \<Longrightarrow> vmin (affine t s a) (affine t s b) = affine t s (vmin a b)"
  by (simp add: affine_def vmin_def vadd_def vmul_def vec_def affine_min_real)

lemma affine_vmax: "0 \<le> s \<Longrightarrow> vmax (affine t s a) (affine t s b) = affine t s (vmax a b)"
  by (simp add: affine_def vmax_def vadd_def vmul_def vec_def affine_max_real)

lemma expand_image:
  "0 \<le> s \<Longrightarrow>
   expandByPoint (Some (box_image t s b)) (affine t s p)
   = map_option (box_image t s) (expandByPoint (Some b) p)"
  by (simp add: expandByPoint_def box_image_def affine_vmin affine_vmax)

lemma expand_Some: "\<exists>b'. expandByPoint (Some b) p = Some b'"
  by (simp add: expandByPoint_def)

lemma foldl_expand_image:
  "0 \<le> s \<Longrightarrow>
   foldl expandByPoint (Some (box_image t s b)) (map (affine t s) ps)
   = map_option (box_image t s) (foldl expandByPoint (Some b) ps)"
proof (induction ps arbitrary: b)
  case Nil
  show ?case by simp
next
  case (Cons p ps)
  obtain b' where b': "expandByPoint (Some b) p = Some b'"
    using expand_Some by blast
  show ?case
    using Cons.IH [OF Cons.prems, of b'] by (simp add: expand_image Cons.prems b')
qed

lemma expand_ordered:
  "ordered b \<Longrightarrow> expandByPoint (Some b) p = Some b' \<Longrightarrow> ordered b'"
  by (auto simp add: expandByPoint_def ordered_def vmin_def vmax_def vec_def
        min_le_iff_disj le_max_iff_disj)

lemma foldl_expand_ordered:
  "ordered b \<Longrightarrow> \<exists>b'. foldl expandByPoint (Some b) ps = Some b' \<and> ordered b'"
proof (induction ps arbitrary: b)
  case Nil
  then show ?case by simp
next
  case (Cons p ps)
  obtain b1 where b1: "expandByPoint (Some b) p = Some b1"
    using expand_Some by blast
  have "ordered b1" using expand_ordered [OF Cons.prems b1] .
  from Cons.IH [OF this] show ?case by (simp add: b1)
qed

lemma setFromPoints_nonempty:
  assumes "ps \<noteq> []"
  shows "\<exists>b. setFromPoints ps = Some b \<and> ordered b"
proof -
  obtain p qs where ps: "ps = p # qs" using assms by (cases ps) auto
  have "ordered \<lparr>bmin = p, bmax = p\<rparr>" by (simp add: ordered_def)
  from foldl_expand_ordered [OF this, of qs] show ?thesis
    by (simp add: ps setFromPoints_Cons)
qed

lemma setFromPoints_image:
  assumes "0 \<le> s"
  shows "setFromPoints (map (affine t s) ps) = map_option (box_image t s) (setFromPoints ps)"
proof (cases ps)
  case Nil
  then show ?thesis by (simp add: setFromPoints_def)
next
  case (Cons p qs)
  have "\<lparr>bmin = affine t s p, bmax = affine t s p\<rparr> = box_image t s \<lparr>bmin = p, bmax = p\<rparr>"
    by (simp add: box_image_def)
  then show ?thesis
    using foldl_expand_image [OF assms, of t "\<lparr>bmin = p, bmax = p\<rparr>" qs]
    by (simp add: Cons setFromPoints_Cons)
qed

lemma maxDim_ordered: "ordered b \<Longrightarrow> 0 \<le> box_maxDim (Some b)"
  by (simp add: box_maxDim_def getSize_def vsub_def vec_def ordered_def le_max_iff_disj)

lemma maxDim_image:
  assumes "0 \<le> s"
  shows "box_maxDim (Some (box_image t s b)) = s * box_maxDim (Some b)"
proof -
  have "\<And>a c :: real. t' + s * a - (t' + s * c) = s * (a - c)" for t' :: real
    by (simp add: algebra_simps)
  then show ?thesis
    using assms
    by (simp add: box_maxDim_def getSize_def box_image_def affine_def vsub_def vadd_def
          vmul_def vec_def max_mult_distrib_left)
qed

lemma maxDim_unfold:
  "max (max (vx (getSize b)) (vy (getSize b))) (vz (getSize b)) = box_maxDim b"
  by (simp add: box_maxDim_def Let_def)

lemma localToWorld_affine:
  "scale ob = vec s s s \<Longrightarrow> localToWorld ob = affine (position ob) s"
  by (rule ext) (simp add: localToWorld_def affine_def)

lemma fittedI:
  assumes b: "setFromPoints ps = Some b" and ord: "ordered b"
    and pos: "position ob = vec (- vx (getCenter (Some b))) (- vy (getCenter (Some b)))
                                (- vz (getCenter (Some b)))"
    and sc: "scale ob = (if 0 < box_maxDim (Some b)
                         then vec (2 / box_maxDim (Some b)) (2 / box_maxDim (Some b)) (2 / box_maxDim (Some b))
                         else vec 1 1 1)"
  shows "fitted ps ob"
proof -
  let ?d = "box_maxDim (Some b)"
  have d0: "0 \<le> ?d" using maxDim_ordered [OF ord] .
  have p: "position ob = vec (- ((vx (bmin b) + vx (bmax b)) / 2))
                            (- ((vy (bmin b) + vy (bmax b)) / 2))
                            (- ((vz (bmin b) + vz (bmax b)) / 2))"
    by (simp add: pos getCenter_def multiplyScalar_def vadd_def vec_def)
  show ?thesis
  proof (cases "0 < ?d")
    case True
    then have s: "scale ob = vec (2 / ?d) (2 / ?d) (2 / ?d)" using sc by simp
    have "setFromPoints (map (localToWorld ob) ps)
          = Some (box_image (position ob) (2 / ?d) b)"
      using True by (simp add: localToWorld_affine [OF s] setFromPoints_image b)
    then have "box_maxDim (setFromPoints (map (localToWorld ob) ps)) = 2"
      using True by (simp add: maxDim_image)
    then show ?thesis using True s p by (simp add: fitted_def b)
  next
    case False
    then have "?d = 0" using d0 by simp
    then show ?thesis using sc p by (simp add: fitted_def b)
  qed
qed

lemma stl_onLoad_fitted:
  assumes "positions g \<noteq> []"
  shows "\<exists>m. stl_onLoad vm col g = Inr m \<and> fitted (positions g) m"
proof -
  obtain b where b: "setFromPoints (positions g) = Some b" and ord: "ordered b"
    using setFromPoints_nonempty [OF assms] by blast
  let ?g = "if normals g = None then computeVertexNormals g else g"
  have pg: "positions ?g = positions g" by (simp add: computeVertexNormals_def)
  have cb: "computeBoundingBox ?g = Some b"
    unfolding computeBoundingBox_def pg by (rule b)
  show ?thesis
  proof (cases "0 < box_maxDim (Some b)")
    case True
    then show ?thesis
      unfolding stl_onLoad_def Let_def cb maxDim_unfold
      by (auto simp add: js_div_def new_Mesh_def intro!: fittedI [OF b ord])
  next
    case False
    then show ?thesis
      unfolding stl_onLoad_def Let_def cb maxDim_unfold
      by (auto simp add: new_Mesh_def intro!: fittedI [OF b ord])
  qed
qed

lemma obj_onLoad_fitted:
  assumes "concat (map child_positions cs) \<noteq> []"
  shows "\<exists>ob. obj_onLoad vm col (new_Group cs) = Inr ob \<and>
               fitted (concat (map child_positions cs)) ob"
proof -
  let ?ps = "concat (map child_positions cs)"
  obtain b where b: "setFromPoints ?ps = Some b" and ord: "ordered b"
    using setFromPoints_nonempty [OF assms] by blast
  have cb: "setFromObject (new_Group cs) = Some b"
    unfolding setFromObject_def using b by (simp add: new_Group_def)
  show ?thesis
  proof (cases "0 < box_maxDim (Some b)")
    case True
    then show ?thesis
      unfolding obj_onLoad_def Let_def cb maxDim_unfold
      by (auto simp add: js_div_def new_Group_def intro!: fittedI [OF b ord])
  next
    case False
    then show ?thesis
      unfolding obj_onLoad_def Let_def cb maxDim_unfold
      by (auto simp add: new_Group_def intro!: fittedI [OF b ord])
  qed
qed

text \<open>
  Claim C2. For a geometry with at least one vertex, both load callbacks return a result
  (no division by zero is evaluated) whose position is minus the centre \<open>(min + max) / 2\<close>
  of the bounding box; when the largest extent \<open>maxDim\<close> is positive the scale is
  \<open>2 / maxDim\<close> and the largest extent of the drawn vertices is 2; when it is zero the
  scale stays 1.
\<close>

theorem normalize_centres_and_fits:
  assumes "positions g \<noteq> []" and "concat (map child_positions cs) \<noteq> []"
  shows "(\<exists>m. stl_onLoad vm col g = Inr m \<and> fitted (positions g) m) \<and>
         (\<exists>ob. obj_onLoad vm col (new_Group cs) = Inr ob \<and>
                fitted (concat (map child_positions cs)) ob)"
  using stl_onLoad_fitted [OF assms(1)] obj_onLoad_fitted [OF assms(2)] by blast


theorem normalize_centres_and_fits_witness:
  "positions \<lparr>positions = [vec 0 0 0, vec 1 2 4, vec 1 0 0], normals = None\<rparr> \<noteq> [] \<and>
   concat (map child_positions
     [Mesh (new_Mesh \<lparr>positions = [vec 3 3 3, vec 3 3 3, vec 3 3 3], normals = None\<rparr>
              (new_MeshStandardMaterial ''white''))]) \<noteq> [] \<and>
   (\<exists>m. stl_onLoad Normal ''#00b8d4''
           \<lparr>positions = [vec 0 0 0, vec 1 2 4, vec 1 0 0], normals = None\<rparr> = Inr m \<and>
        position m = vec (- (1 / 2)) (- 1) (- 2) \<and>
        scale m = vec (1 / 2) (1 / 2) (1 / 2) \<and>
        box_maxDim (setFromPoints (map (localToWorld m) [vec 0 0 0, vec 1 2 4, vec 1 0 0])) = 2) \<and>
   (\<exists>ob. obj_onLoad Normal ''#00b8d4''
            (new_Group
              [Mesh (new_Mesh \<lparr>positions = [vec 3 3 3, vec 3 3 3, vec 3 3 3], normals = None\<rparr>
                       (new_MeshStandardMaterial ''white''))]) = Inr ob \<and>
         position ob = vec (- 3) (- 3) (- 3) \<and>
         scale ob = vec 1 1 1)"
  using normalize_centres_and_fits
    [of "\<lparr>positions = [vec 0 0 0, vec 1 2 4, vec 1 0 0], normals = None\<rparr>"
        "[Mesh (new_Mesh \<lparr>positions = [vec 3 3 3, vec 3 3 3, vec 3 3 3], normals = None\<rparr>
                  (new_MeshStandardMaterial ''white''))]"
        Normal "''#00b8d4''"]
  by (simp add: fitted_def setFromPoints_def expandByPoint_def vmin_def vmax_def vec_def
      box_maxDim_def getSize_def vsub_def Let_def new_Mesh_def)

subsection \<open>Materials\<close>

text \<open>
  Claim C5. The material is a function of the view mode and the colour alone, and for every
  colour: normal gives no wireframe, opacity 1, front side only; wireframe gives wireframe,
  opacity 1, front side only; x-ray gives no wireframe, opacity 0.5, both sides. The
  material carries the colour it was asked for.
\<close>

theorem createMaterial_table:
  "wireframe (createMaterial c Normal) = False \<and>
   opacity (createMaterial c Normal) = 1 \<and>
   side (createMaterial c Normal) = FrontSide \<and>
   wireframe (createMaterial c Wireframe) = True \<and>
   opacity (createMaterial c Wireframe) = 1 \<and>
   side (createMaterial c Wireframe) = FrontSide \<and>
   wireframe (createMaterial c XRay) = False \<and>
   opacity (createMaterial c XRay) = 1 / 2 \<and>
   side (createMaterial c XRay) = DoubleSide \<and>
   color (createMaterial c Normal) = c \<and>
   color (createMaterial c Wireframe) = c \<and>
   color (createMaterial c XRay) = c"
  by (simp add: new_MeshStandardMaterial_def new_MeshPhongMaterial_def)

subsection \<open>Camera framing\<close>

text \<open>
  Claim C3. When the controls exist, the scene has a mesh and the largest extent
  \<open>maxDim\<close> of the box of all meshes is positive, the effect sets the target to the centre
  of the box and the camera to \<open>centre + normalize (1,1,1) * distance\<close> with
  \<open>distance = (maxDim / 2) / tan (fov / 2) * 2.5\<close>, where \<open>fov\<close> is the camera's field of
  view in radians (45 degrees for a camera that is not a perspective camera) and
  \<open>tan (fov / 2)\<close> is not zero. The witness is the box of size \<open>(2,2,2)\<close> seen with a field
  of view of 90 degrees: the distance is 2.5.
\<close>

theorem frame_pose:
  assumes ctl: "controls_target v = Some t0"
    and ms: "meshes \<noteq> []"
    and box: "box = setFromPoints (concat meshes)"
    and fov: "fov = (case camera v of PerspectiveCamera deg \<Rightarrow> deg * (pi / 180)
                     | OtherCamera \<Rightarrow> 45 * (pi / 180))"
    and d: "0 < box_maxDim box"
    and t: "tan (fov / 2) \<noteq> 0"
  shows "\<exists>v'. sceneSetup_effect meshes v = Inr v' \<and>
           controls_target v' = Some (getCenter box) \<and>
           camera_position v' =
             vadd (getCenter box)
               (multiplyScalar (vnormalize (vec 1 1 1))
                  ((box_maxDim box / 2) / tan (fov / 2) * (5 / 2)))"
  using assms
  by (simp add: sceneSetup_effect_def Let_def maxDim_unfold js_div_def)

theorem frame_pose_witness:
  "controls_target \<lparr>camera = PerspectiveCamera 90, camera_position = vec 0 0 5,
                     controls_target = Some (vec 0 0 0)\<rparr> = Some (vec 0 0 0) \<and>
   [[vec 0 0 0, vec 2 2 2, vec 2 0 0]] \<noteq> [] \<and>
   0 < box_maxDim (setFromPoints (concat [[vec 0 0 0, vec 2 2 2, vec 2 0 0]])) \<and>
   getSize (setFromPoints (concat [[vec 0 0 0, vec 2 2 2, vec 2 0 0]])) = vec 2 2 2 \<and>
   tan (90 * (pi / 180) / 2) \<noteq> 0 \<and>
   (\<exists>v'. sceneSetup_effect [[vec 0 0 0, vec 2 2 2, vec 2 0 0]]
            \<lparr>camera = PerspectiveCamera 90, camera_position = vec 0 0 5,
              controls_target = Some (vec 0 0 0)\<rparr> = Inr v' \<and>
          controls_target v' = Some (vec 1 1 1) \<and>
          camera_position v' =
            vadd (vec 1 1 1) (multiplyScalar (vnormalize (vec 1 1 1)) (5 / 2)))"
  using frame_pose
    [of "\<lparr>camera = PerspectiveCamera 90, camera_position = vec 0 0 5,
          controls_target = Some (vec 0 0 0)\<rparr>" "vec 0 0 0"
        "[[vec 0 0 0, vec 2 2 2, vec 2 0 0]]"
        "setFromPoints (concat [[vec 0 0 0, vec 2 2 2, vec 2 0 0]])"
        "90 * (pi / 180)"]
  by (simp add: setFromPoints_def expandByPoint_def vmin_def vmax_def vec_def
      box_maxDim_def getSize_def getCenter_def vsub_def vadd_def multiplyScalar_def Let_def tan_45)

text \<open>
  Claim C4 says that a box without extent gives a fixed default pose. The effect has no
  such branch: two runs on the same box that start from different camera positions end
  at different camera positions, each where it started, and neither is five units along
  \<open>normalize (1,1,1)\<close> from the centre.
\<close>

theorem frame_flat_box_counterexample:
  "sceneSetup_effect [[vec 1 2 3, vec 1 2 3, vec 1 2 3]]
     \<lparr>camera = PerspectiveCamera 50, camera_position = vec 0 0 5,
       controls_target = Some (vec 0 0 0)\<rparr>
   = Inr \<lparr>camera = PerspectiveCamera 50, camera_position = vec 0 0 5,
          controls_target = Some (vec 1 2 3)\<rparr> \<and>
   sceneSetup_effect [[vec 1 2 3, vec 1 2 3, vec 1 2 3]]
     \<lparr>camera = PerspectiveCamera 50, camera_position = vec 7 8 9,
       controls_target = Some (vec 0 0 0)\<rparr>
   = Inr \<lparr>camera = PerspectiveCamera 50, camera_position = vec 7 8 9,
          controls_target = Some (vec 1 2 3)\<rparr> \<and>
   vec 0 0 5 \<noteq> vec 7 8 9 \<and>
   vec 0 0 5 \<noteq> vadd (vec 1 2 3) (multiplyScalar (vnormalize (vec 1 1 1)) 5)"
  by (simp add: sceneSetup_effect_def setFromPoints_def expandByPoint_def vmin_def vmax_def
      vec_def box_maxDim_def getSize_def getCenter_def vsub_def vadd_def multiplyScalar_def Let_def
      vnormalize_def vlength_def)

text \<open>
  Claim C4, amended. When the controls exist, the scene has a mesh and the largest extent
  of the box is zero, the effect sets the target to the centre of the box and leaves the
  camera where it was; no division is evaluated.
\<close>

theorem frame_flat_box_keeps_camera:
  assumes ctl: "controls_target v = Some t0"
    and ms: "meshes \<noteq> []"
    and d: "box_maxDim (setFromPoints (concat meshes)) = 0"
  shows "sceneSetup_effect meshes v =
           Inr (v\<lparr>controls_target := Some (getCenter (setFromPoints (concat meshes)))\<rparr>)"
  using assms
  by (simp add: sceneSetup_effect_def Let_def maxDim_unfold)

theorem frame_flat_box_keeps_camera_witness:
  "controls_target \<lparr>camera = PerspectiveCamera 50, camera_position = vec 0 0 5,
                     controls_target = Some (vec 0 0 0)\<rparr> = Some (vec 0 0 0) \<and>
   [[vec 1 2 3, vec 1 2 3, vec 1 2 3]] \<noteq> [] \<and>
   box_maxDim (setFromPoints (concat [[vec 1 2 3, vec 1 2 3, vec 1 2 3]])) = 0 \<and>
   sceneSetup_effect [[vec 1 2 3, vec 1 2 3, vec 1 2 3]]
     \<lparr>camera = PerspectiveCamera 50, camera_position = vec 0 0 5,
       controls_target = Some (vec 0 0 0)\<rparr>
   = Inr \<lparr>camera = PerspectiveCamera 50, camera_position = vec 0 0 5,
          controls_target = Some (vec 1 2 3)\<rparr>"
  using frame_flat_box_keeps_camera
    [of "\<lparr>camera = PerspectiveCamera 50, camera_position = vec 0 0 5,
          controls_target = Some (vec 0 0 0)\<rparr>" "vec 0 0 0"
        "[[vec 1 2 3, vec 1 2 3, vec 1 2 3]]"]
  by (simp add: setFromPoints_def expandByPoint_def vmin_def vmax_def vec_def
      box_maxDim_def getSize_def getCenter_def vsub_def vadd_def multiplyScalar_def Let_def)

section \<open>Properties of the viewer\<close>

lemmas viewer_defs =
  run_def mount_def initial_def modelId_effect_def setModelId_def run_cleanup_def unmount_def
  fetchModel_details_def fetchModel_file_def fetch_failed_def task_at_def set_state_def
  setViewMode_def setObjectColor_def setAutoRotate_def

subsection \<open>Overlapping requests\<close>

text \<open>
  The load effect of \<^verbatim>\<open>Model\<close> drops the success of a run that was superseded: the
  callback of a run whose \<^verbatim>\<open>isActive\<close> flag is cleared changes nothing, and a second run
  of the effect clears the flag of the first.
\<close>

lemma deactivate_last_length: "length (deactivate_last rs) = length rs"
  by (cases "rev rs")
     (auto simp add: deactivate_last_def split: prod.splits dest: arg_cong [where f = length])

lemma stale_success_is_dropped:
  "k < length (runs c) \<Longrightarrow> \<not> snd (runs c ! k) \<Longrightarrow> onLoad k r c = c"
  by (cases "runs c ! k") (simp add: onLoad_def)

lemma deactivate_last_snoc: "deactivate_last (rs @ [(p, a)]) = rs @ [(p, False)]"
  by (simp add: deactivate_last_def)

lemma superseded_load_is_dropped:
  "onLoad (length (runs c)) r (load_effect p2 (load_effect p1 c)) = load_effect p2 (load_effect p1 c)"
proof -
  have rs: "runs (load_effect p2 (load_effect p1 c))
            = deactivate_last (runs c) @ [(p1, False), (p2, True)]"
    by (simp add: load_effect_def Let_def deactivate_last_snoc split: load_action.splits)
  show ?thesis
    by (rule stale_success_is_dropped)
       (simp_all add: rs nth_append deactivate_last_length)
qed

text \<open>
  \<^verbatim>\<open>fetchModel\<close> has no such test. Whatever model id the viewer has by now, the answer to
  a pending call is stored.
\<close>

lemma details_answer_installed_without_check:
  "mounted s \<Longrightarrow> task_at s k = Some (i, AwaitDetails) \<Longrightarrow>
   modelInfo (fetchModel_details k (Ok info) s) = Some info \<and>
   modelId (fetchModel_details k (Ok info) s) = modelId s"
  by (simp add: fetchModel_details_def set_state_def)

lemma file_answer_installed_without_check:
  "mounted s \<Longrightarrow> task_at s k = Some (i, AwaitFile) \<Longrightarrow>
   modelUrl (fetchModel_file k (Ok b) s) = Some (length (objectURLs s)) \<and>
   modelId (fetchModel_file k (Ok b) s) = modelId s"
  by (simp add: fetchModel_file_def set_state_def)

text \<open>
  Claim C1. The result of a superseded request is never installed, whatever the order of
  arrival. \<^verbatim>\<open>fetchModel\<close> of the viewer has no such guard. The viewer is mounted with model
  \<open>A\<close> (request 0) and then given model \<open>B\<close> (request 1). The answers for \<open>B\<close> arrive first
  and the viewer shows \<open>B\<close>. Then the answers for \<open>A\<close> arrive: the viewer, still given
  model \<open>B\<close>, shows the info and the bytes of \<open>A\<close>.
\<close>

theorem stale_fetch_result_is_installed:
  "render (run (Some ''A'')
     [SetModelId (Some ''B''),
      DetailsArrive 1 (Ok \<lparr>name = ''b.obj'', file_format = ''obj''\<rparr>),
      FileArrive 1 (Ok ''bytes of B'')])
   = Loaded 0 \<lparr>name = ''b.obj'', file_format = ''obj''\<rparr> \<and>
   modelId (run (Some ''A'')
     [SetModelId (Some ''B''),
      DetailsArrive 1 (Ok \<lparr>name = ''b.obj'', file_format = ''obj''\<rparr>),
      FileArrive 1 (Ok ''bytes of B''),
      DetailsArrive 0 (Ok \<lparr>name = ''a.stl'', file_format = ''stl''\<rparr>),
      FileArrive 0 (Ok ''bytes of A'')]) = Some ''B'' \<and>
   render (run (Some ''A'')
     [SetModelId (Some ''B''),
      DetailsArrive 1 (Ok \<lparr>name = ''b.obj'', file_format = ''obj''\<rparr>),
      FileArrive 1 (Ok ''bytes of B''),
      DetailsArrive 0 (Ok \<lparr>name = ''a.stl'', file_format = ''stl''\<rparr>),
      FileArrive 0 (Ok ''bytes of A'')])
   = Loaded 1 \<lparr>name = ''a.stl'', file_format = ''stl''\<rparr> \<and>
   objectURLs (run (Some ''A'')
     [SetModelId (Some ''B''),
      DetailsArrive 1 (Ok \<lparr>name = ''b.obj'', file_format = ''obj''\<rparr>),
      FileArrive 1 (Ok ''bytes of B''),
      DetailsArrive 0 (Ok \<lparr>name = ''a.stl'', file_format = ''stl''\<rparr>),
      FileArrive 0 (Ok ''bytes of A'')]) = [''bytes of B'', ''bytes of A'']"
  by (simp add: viewer_defs render_def truthy_def)

subsection \<open>Object URLs\<close>

text \<open>
  The cleanup that a change of the model id leaves behind holds the URL of the model shown
  before the change.
\<close>

lemma cleanup_holds_url_of_previous_render:
  "mounted s \<Longrightarrow> i \<noteq> [] \<Longrightarrow> Some i \<noteq> modelId s \<Longrightarrow>
   cleanup (setModelId (Some i) s) = Some (modelUrl s)"
  by (auto simp add: setModelId_def modelId_effect_def run_cleanup_def split: option.splits)

text \<open>
  Claim C8. Every object URL is released exactly once and at most one is live at a time.
  The cleanup revokes the URL its closure holds, which is the URL of the render that
  started the effect and not the one the effect's own fetch creates. Mounted with \<open>A\<close>,
  loaded and unmounted, the viewer revokes nothing: URL 0 stays live. After a switch to
  \<open>B\<close> and its load, URLs 0 and 1 are both live. When the fetches for \<open>B\<close> and \<open>C\<close> fail,
  the switches to \<open>C\<close> and \<open>D\<close> revoke URL 0 twice.
\<close>

theorem object_url_leaked_and_revoked_twice:
  "objectURLs (run (Some ''A'')
     [DetailsArrive 0 (Ok \<lparr>name = ''a.stl'', file_format = ''stl''\<rparr>),
      FileArrive 0 (Ok ''bytes of A''), Unmount]) = [''bytes of A''] \<and>
   revoked (run (Some ''A'')
     [DetailsArrive 0 (Ok \<lparr>name = ''a.stl'', file_format = ''stl''\<rparr>),
      FileArrive 0 (Ok ''bytes of A''), Unmount]) = [] \<and>
   live_urls (run (Some ''A'')
     [DetailsArrive 0 (Ok \<lparr>name = ''a.stl'', file_format = ''stl''\<rparr>),
      FileArrive 0 (Ok ''bytes of A''),
      SetModelId (Some ''B''),
      DetailsArrive 1 (Ok \<lparr>name = ''b.obj'', file_format = ''obj''\<rparr>),
      FileArrive 1 (Ok ''bytes of B'')]) = [0, 1] \<and>
   revoked (run (Some ''A'')
     [DetailsArrive 0 (Ok \<lparr>name = ''a.stl'', file_format = ''stl''\<rparr>),
      FileArrive 0 (Ok ''bytes of A''),
      SetModelId (Some ''B''), DetailsArrive 1 (NotOk ''404''),
      SetModelId (Some ''C''), DetailsArrive 2 (NotOk ''404''),
      SetModelId (Some ''D'')]) = [0, 0]"
  by (simp add: viewer_defs live_urls_def upt_rec)

subsection \<open>The format check\<close>

text \<open>
  Claim C6 says that the format is matched without regard to case and that an unknown
  format fails before the bytes are read. The format \<open>STL\<close> is refused; and for the
  format \<open>step\<close> the download request is sent when the details arrive, the object URL is
  created when the file arrives, and only the \<^verbatim>\<open>Model\<close> mounted after that sets the error.
\<close>

theorem format_check_counterexample:
  "loadModel 0 ''STL'' = SetError ''Unsupported file format: STL'' \<and>
   network (run (Some ''m1'')
     [DetailsArrive 0 (Ok \<lparr>name = ''part.step'', file_format = ''step''\<rparr>)])
   = [GetDetails ''m1'', GetDownload ''m1''] \<and>
   objectURLs (run (Some ''m1'')
     [DetailsArrive 0 (Ok \<lparr>name = ''part.step'', file_format = ''step''\<rparr>),
      FileArrive 0 (Ok ''bytes'')]) = [''bytes''] \<and>
   effects_of (FileArrive 0 (Ok ''bytes''))
     (run (Some ''m1'')
        [DetailsArrive 0 (Ok \<lparr>name = ''part.step'', file_format = ''step''\<rparr>)])
   = [LoadEffect (SetError ''Unsupported file format: step'') Normal, ColourEffect ''#00b8d4'']"
  by (simp add: viewer_defs loadModel_def effects_of_def model_effects_def rendered_model_def
      render_def truthy_def)

text \<open>
  Claim C6, amended. For every model id that is not empty, info and blob: the download
  request follows the details whatever the format, no \<^verbatim>\<open>Model\<close> is rendered before the
  file has arrived, the object URL is created, and the \<^verbatim>\<open>Model\<close> mounted then starts the
  STL loader for the format \<open>stl\<close>, the OBJ loader for \<open>obj\<close>, and for every other string,
  compared character by character, sets the error \<open>Unsupported file format\<close> and starts no
  loader.
\<close>

theorem format_checked_after_download:
  assumes "i \<noteq> []"
  shows "network (run (Some i) [DetailsArrive 0 (Ok info)]) = [GetDetails i, GetDownload i] \<and>
         rendered_model (run (Some i) [DetailsArrive 0 (Ok info)]) = None \<and>
         objectURLs (run (Some i) [DetailsArrive 0 (Ok info), FileArrive 0 (Ok b)]) = [b] \<and>
         effects_of (FileArrive 0 (Ok b)) (run (Some i) [DetailsArrive 0 (Ok info)])
         = [LoadEffect
              (if file_format info = ''stl'' then STLLoader_load 0
               else if file_format info = ''obj'' then OBJLoader_load 0
               else SetError (''Unsupported file format: '' @ file_format info))
              Normal,
            ColourEffect ''#00b8d4'']"
  using assms
  by (simp add: viewer_defs loadModel_def effects_of_def model_effects_def rendered_model_def
      render_def truthy_def)

theorem format_checked_after_download_witness:
  "''m1'' \<noteq> [] \<and>
   network (run (Some ''m1'') [DetailsArrive 0 (Ok \<lparr>name = ''cube'', file_format = ''STL''\<rparr>)])
     = [GetDetails ''m1'', GetDownload ''m1''] \<and>
   effects_of (FileArrive 0 (Ok ''solid cube''))
     (run (Some ''m1'') [DetailsArrive 0 (Ok \<lparr>name = ''cube'', file_format = ''STL''\<rparr>)])
     = [LoadEffect (SetError ''Unsupported file format: STL'') Normal, ColourEffect ''#00b8d4'']"
  using format_checked_after_download
    [of "''m1''" "\<lparr>name = ''cube'', file_format = ''STL''\<rparr>" "''solid cube''"]
  by simp

subsection \<open>The three setters\<close>

text \<open>
  Claim C7 says that none of the three setters reloads the model. The load effect of
  \<^verbatim>\<open>Model\<close> depends on the view mode: with a loaded STL model on display, the change to
  wireframe runs the effect again, which starts the STL loader on the same URL.
\<close>

theorem view_mode_reloads_counterexample:
  "rendered_model (run (Some ''A'')
     [DetailsArrive 0 (Ok \<lparr>name = ''a.stl'', file_format = ''stl''\<rparr>),
      FileArrive 0 (Ok ''bytes of A'')])
   = Some \<lparr>url = 0, fileFormat = ''stl'', mode = Normal, colour = ''#00b8d4''\<rparr> \<and>
   effects_of (SetViewMode Wireframe)
     (run (Some ''A'')
        [DetailsArrive 0 (Ok \<lparr>name = ''a.stl'', file_format = ''stl''\<rparr>),
         FileArrive 0 (Ok ''bytes of A'')])
   = [LoadEffect (STLLoader_load 0) Wireframe]"
  by (simp add: viewer_defs loadModel_def effects_of_def model_effects_def rendered_model_def
      render_def truthy_def)

lemma stl_transform_independent:
  "map_sum id (\<lambda>m. (position m, scale m)) (stl_onLoad vm c g)
   = map_sum id (\<lambda>m. (position m, scale m)) (stl_onLoad vm' c' g)"
  by (simp add: stl_onLoad_def Let_def js_div_def new_Mesh_def computeBoundingBox_def
      computeVertexNormals_def)

lemma obj_transform_independent:
  "map_sum id (\<lambda>m. (position m, scale m)) (obj_onLoad vm c ob)
   = map_sum id (\<lambda>m. (position m, scale m)) (obj_onLoad vm' c' ob)"
  by (simp add: obj_onLoad_def Let_def js_div_def)

text \<open>
  Claim C7, amended. None of the three setters touches the fetch pipeline of the viewer:
  the model id, the loading flag, the error, the URL, the info, the pending calls, the
  requests, the object URLs and the revocations stay as they are. The auto-rotate setter
  runs no effect of \<^verbatim>\<open>Model\<close>; the colour setter runs the colour effect when a model is
  on display and the colour differs; the view-mode setter runs the load effect again, on
  the same URL and format, when a model is on display and the mode differs. Position and
  scale computed by a load do not depend on the view mode or the colour.
\<close>

theorem setters_and_reload:
  "fetch_state (step s (SetViewMode m)) = fetch_state s \<and>
   fetch_state (step s (SetObjectColor c)) = fetch_state s \<and>
   fetch_state (step s (SetAutoRotate b)) = fetch_state s \<and>
   effects_of (SetAutoRotate b) s = [] \<and>
   effects_of (SetObjectColor c) s =
     (case rendered_model s of
        None \<Rightarrow> []
      | Some p \<Rightarrow> if c = colour p then [] else [ColourEffect c]) \<and>
   effects_of (SetViewMode m) s =
     (case rendered_model s of
        None \<Rightarrow> []
      | Some p \<Rightarrow> if m = mode p then []
                  else [LoadEffect (loadModel (url p) (fileFormat p)) m]) \<and>
   map_sum id (\<lambda>x. (position x, scale x)) (stl_onLoad m c g)
     = map_sum id (\<lambda>x. (position x, scale x)) (stl_onLoad m' c' g) \<and>
   map_sum id (\<lambda>x. (position x, scale x)) (obj_onLoad m c ob)
     = map_sum id (\<lambda>x. (position x, scale x)) (obj_onLoad m' c' ob)"
proof -
  have 1: "fetch_state (step s (SetViewMode m)) = fetch_state s"
    and 2: "fetch_state (step s (SetObjectColor c)) = fetch_state s"
    and 3: "fetch_state (step s (SetAutoRotate b)) = fetch_state s"
    by (simp_all add: fetch_state_def setViewMode_def setObjectColor_def setAutoRotate_def
        set_state_def)
  have 4: "effects_of (SetAutoRotate b) s = []"
    by (simp add: effects_of_def model_effects_def rendered_model_def setAutoRotate_def
        set_state_def render_def split: load_state.splits option.splits)
  have 5: "effects_of (SetObjectColor c) s =
     (case rendered_model s of
        None \<Rightarrow> []
      | Some p \<Rightarrow> if c = colour p then [] else [ColourEffect c])"
    by (auto simp add: effects_of_def model_effects_def rendered_model_def setObjectColor_def
        set_state_def render_def split: load_state.splits option.splits)
  have 6: "effects_of (SetViewMode m) s =
     (case rendered_model s of
        None \<Rightarrow> []
      | Some p \<Rightarrow> if m = mode p then []
                  else [LoadEffect (loadModel (url p) (fileFormat p)) m])"
    by (auto simp add: effects_of_def model_effects_def rendered_model_def setViewMode_def
        set_state_def render_def split: load_state.splits option.splits)
  show ?thesis
    using 1 2 3 4 5 6 stl_transform_independent [of m c g m' c']
      obj_transform_independent [of m c ob m' c']
    by simp
qed

subsection \<open>Vertex normals\<close>

lemma faceNormals_length: "length (faceNormals ps) = length ps"
  by (induction ps rule: faceNormals.induct) (simp_all add: Let_def)

lemma faceNormals_triangle:
  "3 * i + 2 < length ps \<Longrightarrow>
   faceNormals ps ! (3 * i) = triangle_normal ps i \<and>
   faceNormals ps ! (3 * i + 1) = triangle_normal ps i \<and>
   faceNormals ps ! (3 * i + 2) = triangle_normal ps i"
proof (induction ps arbitrary: i rule: faceNormals.induct)
  case (1 pA pB pC ps)
  show ?case
  proof (cases i)
    case 0
    then show ?thesis by (simp add: triangle_normal_def Let_def)
  next
    case (Suc j)
    have j: "3 * j + 2 < length ps" using "1.prems" Suc by simp
    have e: "3 * i = Suc (Suc (Suc (3 * j)))" using Suc by simp
    have t: "triangle_normal (pA # pB # pC # ps) i = triangle_normal ps j"
      by (simp add: triangle_normal_def e)
    show ?thesis
      using "1.IH" [OF refl j] by (simp add: e t Let_def)
  qed
qed simp_all

text \<open>The OBJ callback leaves the geometry of every child as the loader built it.\<close>

lemma apply_material_geometry: "child_geometry (apply_material mat ch) = child_geometry ch"
  by (cases ch) simp_all

lemma obj_onLoad_geometry:
  "\<exists>ob. obj_onLoad vm c (new_Group cs) = Inr ob \<and>
        map child_geometry (children ob) = map child_geometry cs"
  by (simp add: obj_onLoad_def Let_def js_div_def new_Group_def apply_material_geometry o_def)

text \<open>
  The STL callback keeps the positions, keeps normals the loader supplied, and otherwise
  computes one normal per vertex: in the triangle soup every vertex belongs to one
  triangle, and the three vertices of triangle \<open>i\<close> get the normalised
  \<open>(pC - pB) \<times> (pA - pB)\<close> of that triangle.
\<close>

lemma stl_callback_ensures_normals:
  "\<exists>m. stl_onLoad vm c g = Inr m \<and>
        positions (geometry m) = positions g \<and>
        normals (geometry m) =
          Some (case normals g of
                  Some ns \<Rightarrow> ns
                | None \<Rightarrow> map vnormalize (faceNormals (positions g)))"
  by (auto simp add: stl_onLoad_def Let_def js_div_def new_Mesh_def computeVertexNormals_def)


section \<open>Properties of deleting a model\<close>

text \<open>
  When nothing happens between the click and the answer, the handler of \<^verbatim>\<open>App\<close> does
  what its comment says: the model leaves the list and, if it was the active one, the
  first model that remains is selected, or none; any other selection stays. A request that
  fails changes nothing.
\<close>

lemma delete_alone_falls_back:
  "handleModelDelete (Ok x) mid s s =
     \<lparr>models = filter (\<lambda>m. model_id m \<noteq> mid) (models s),
      activeModelId =
        (if activeModelId s = Some mid
         then (case filter (\<lambda>m. model_id m \<noteq> mid) (models s) of
                 [] \<Rightarrow> None
               | m # _ \<Rightarrow> Some (model_id m))
         else activeModelId s)\<rparr>"
  by (cases "filter (\<lambda>m. model_id m \<noteq> mid) (models s)")
     (simp_all add: handleModelDelete_def Let_def)

lemma delete_failed_changes_nothing:
  "handleModelDelete (NotOk st) mid captured live = live \<and>
   handleModelDelete (Rejected err) mid captured live = live"
  by (simp add: handleModelDelete_def)

text \<open>
  The handler decides with the list and the selection of the render it was created in,
  whatever the component holds when the answer arrives.
\<close>

lemma delete_reads_the_captured_state:
  "activeModelId captured \<noteq> Some mid \<Longrightarrow>
   handleModelDelete (Ok x) mid captured live =
     live\<lparr>models := filter (\<lambda>m. model_id m \<noteq> mid) (models captured)\<rparr>"
  by (simp add: handleModelDelete_def Let_def)

text \<open>What \<^verbatim>\<open>handleDelete\<close> of \<^verbatim>\<open>ModelList\<close> reports.\<close>

lemma handleDelete_reports:
  "handleDelete (Ok x) mid activeModel = (True, if activeModel = Some mid then [None] else []) \<and>
   handleDelete (NotOk st) mid activeModel = (False, []) \<and>
   handleDelete (Rejected err) mid activeModel = (False, [])"
  by (simp add: handleDelete_def)

text \<open>
  Claim C10. When the active model is deleted the selection falls back to the first model
  that remains, or to none; deleting another model leaves the selection alone. The handler
  of \<^verbatim>\<open>App\<close> tests the selection of the render it was created in. With the models 1, 2
  and 3 listed and 1 active, delete is clicked on 1 and on 2 before an answer arrives, and
  both requests succeed. The first answer selects 2. The second answer deletes 2, the
  active model by then, and selects nothing else: model 2 stays selected, and the list is
  set to 1 and 3, with the deleted model 1 back in it. The same happens when 2 is selected
  by a click while its delete request is under way.
\<close>

theorem overlapping_deletes_keep_deleted_model_selected:
  "current (app_events
     \<lparr>models =
        [\<lparr>model_id = ''1'', entry_info = \<lparr>name = ''a.stl'', file_format = ''stl''\<rparr>\<rparr>,
         \<lparr>model_id = ''2'', entry_info = \<lparr>name = ''b.obj'', file_format = ''obj''\<rparr>\<rparr>,
         \<lparr>model_id = ''3'', entry_info = \<lparr>name = ''c.stl'', file_format = ''stl''\<rparr>\<rparr>],
      activeModelId = Some ''1''\<rparr>
     [ClickDelete ''1'', ClickDelete ''2'', DeleteAnswer 0 (Ok ())])
   = \<lparr>models =
        [\<lparr>model_id = ''2'', entry_info = \<lparr>name = ''b.obj'', file_format = ''obj''\<rparr>\<rparr>,
         \<lparr>model_id = ''3'', entry_info = \<lparr>name = ''c.stl'', file_format = ''stl''\<rparr>\<rparr>],
      activeModelId = Some ''2''\<rparr> \<and>
   current (app_events
     \<lparr>models =
        [\<lparr>model_id = ''1'', entry_info = \<lparr>name = ''a.stl'', file_format = ''stl''\<rparr>\<rparr>,
         \<lparr>model_id = ''2'', entry_info = \<lparr>name = ''b.obj'', file_format = ''obj''\<rparr>\<rparr>,
         \<lparr>model_id = ''3'', entry_info = \<lparr>name = ''c.stl'', file_format = ''stl''\<rparr>\<rparr>],
      activeModelId = Some ''1''\<rparr>
     [ClickDelete ''1'', ClickDelete ''2'', DeleteAnswer 0 (Ok ()), DeleteAnswer 1 (Ok ())])
   = \<lparr>models =
        [\<lparr>model_id = ''1'', entry_info = \<lparr>name = ''a.stl'', file_format = ''stl''\<rparr>\<rparr>,
         \<lparr>model_id = ''3'', entry_info = \<lparr>name = ''c.stl'', file_format = ''stl''\<rparr>\<rparr>],
      activeModelId = Some ''2''\<rparr> \<and>
   current (app_events
     \<lparr>models =
        [\<lparr>model_id = ''1'', entry_info = \<lparr>name = ''a.stl'', file_format = ''stl''\<rparr>\<rparr>,
         \<lparr>model_id = ''2'', entry_info = \<lparr>name = ''b.obj'', file_format = ''obj''\<rparr>\<rparr>,
         \<lparr>model_id = ''3'', entry_info = \<lparr>name = ''c.stl'', file_format = ''stl''\<rparr>\<rparr>],
      activeModelId = Some ''1''\<rparr>
     [ClickDelete ''2'', ClickSelect ''2'', DeleteAnswer 0 (Ok ())])
   = \<lparr>models =
        [\<lparr>model_id = ''1'', entry_info = \<lparr>name = ''a.stl'', file_format = ''stl''\<rparr>\<rparr>,
         \<lparr>model_id = ''3'', entry_info = \<lparr>name = ''c.stl'', file_format = ''stl''\<rparr>\<rparr>],
      activeModelId = Some ''2''\<rparr>"
  by (simp add: app_events_def deleting_at_def handleModelDelete_def handleModelSelect_def
      Let_def)

end
